theory Spec2Isabelle
  imports Main "HOL-Library.Sublist"
begin

section \<open>Strings and character classes\<close>

text \<open>
  A JavaScript string is modelled as a \<^typ>\<open>string\<close>: a list of code units, here the
  code units 0 to 255. The character classes are those of the regular expressions in
  \<^verbatim>\<open>relprefetch.mjs\<close>: \<^verbatim>\<open>\w\<close> is \<^verbatim>\<open>[A-Za-z0-9_]\<close>, \<^verbatim>\<open>\s\<close> (and what
  \<^verbatim>\<open>trim()\<close> strips) is TAB, LF, VT, FF, CR, SPACE and NBSP in this range.
\<close>

definition is_digit :: "char \<Rightarrow> bool" where
  "is_digit c = (let n = (of_char c :: nat) in 48 \<le> n \<and> n \<le> 57)"

definition is_ident_start :: "char \<Rightarrow> bool" where
  "is_ident_start c =
     (let n = (of_char c :: nat) in (65 \<le> n \<and> n \<le> 90) \<or> n = 95 \<or> (97 \<le> n \<and> n \<le> 122))"

definition is_word :: "char \<Rightarrow> bool" where
  "is_word c = (is_digit c \<or> is_ident_start c)"

definition is_space :: "char \<Rightarrow> bool" where
  "is_space c = (let n = (of_char c :: nat) in (9 \<le> n \<and> n \<le> 13) \<or> n = 32 \<or> n = 160)"

definition dquote :: char where
  "dquote = CHR 0x22"

definition squote :: char where
  "squote = CHR 0x27"

definition backslash :: char where
  "backslash = CHR 0x5C"

definition dollar :: char where
  "dollar = CHR ''$''"

text \<open>\<^verbatim>\<open>String.prototype.trim\<close>.\<close>

definition trim :: "string \<Rightarrow> string" where
  "trim s = rev (dropWhile is_space (rev (dropWhile is_space s)))"

text \<open>\<^verbatim>\<open>String.prototype.toLowerCase\<close> on the code units 0 to 255.\<close>

definition lower_char :: "char \<Rightarrow> char" where
  "lower_char c =
     (let n = (of_char c :: nat) in
      if (65 \<le> n \<and> n \<le> 90) \<or> (192 \<le> n \<and> n \<le> 222 \<and> n \<noteq> 215) then char_of (n + 32) else c)"

definition toLowerCase :: "string \<Rightarrow> string" where
  "toLowerCase s = map lower_char s"

text \<open>
  Matching under the \<^verbatim>\<open>i\<close> flag (no \<^verbatim>\<open>u\<close> flag): two code units match when their
  canonical forms agree, and a code unit above 127 never canonicalises to an ASCII one, so
  against an ASCII pattern only the ASCII letters fold.
\<close>

definition upper_ascii :: "char \<Rightarrow> char" where
  "upper_ascii c =
     (let n = (of_char c :: nat) in if 97 \<le> n \<and> n \<le> 122 then char_of (n - 32) else c)"

definition eq_ci :: "char \<Rightarrow> char \<Rightarrow> bool" where
  "eq_ci a b = (upper_ascii a = upper_ascii b)"

text \<open>A literal pattern matched case-insensitively at the head of the text; the rest is returned.\<close>

fun match_ci :: "string \<Rightarrow> string \<Rightarrow> string option" where
  "match_ci [] s = Some s"
| "match_ci (p # ps) [] = None"
| "match_ci (p # ps) (c # cs) = (if eq_ci p c then match_ci ps cs else None)"

text \<open>
  \<^verbatim>\<open>\b\<close>: the position between the previous character (none at the start of the
  string) and the rest of the text is a word boundary when exactly one side is a word
  character.
\<close>

definition word_before :: "char option \<Rightarrow> bool" where
  "word_before p = (case p of None \<Rightarrow> False | Some c \<Rightarrow> is_word c)"

definition word_next :: "string \<Rightarrow> bool" where
  "word_next s = (case s of [] \<Rightarrow> False | c # _ \<Rightarrow> is_word c)"

definition boundary :: "char option \<Rightarrow> string \<Rightarrow> bool" where
  "boundary p s = (word_before p \<noteq> word_next s)"

text \<open>
  The character before the suffix \<open>r\<close> of \<open>s\<close>, when the character before \<open>s\<close>
  is \<open>p\<close>.
\<close>

definition prev_of :: "char option \<Rightarrow> string \<Rightarrow> string \<Rightarrow> char option" where
  "prev_of p s r =
     (let k = length s - length r in if k = 0 then p else Some (s ! (k - 1)))"

section \<open>escapeWhereString, normalizeOp\<close>

text \<open>
  \<^verbatim>\<open>String(v ?? "").replace(/"/g, "\\\"")\<close>: every double quote becomes backslash,
  double quote; nothing else changes.
\<close>

fun escapeWhereString :: "string \<Rightarrow> string" where
  "escapeWhereString [] = []"
| "escapeWhereString (c # cs) =
     (if c = dquote then backslash # dquote # escapeWhereString cs
      else c # escapeWhereString cs)"

definition normalizeOp :: "string \<Rightarrow> string" where
  "normalizeOp opRaw =
     (let op = toLowerCase (trim opRaw) in
      if op = ''='' then ''=''
      else if op = ''!='' then ''!=''
      else if op = ''like'' then ''like''
      else ''='')"

section \<open>The predicate detector\<close>

record predicate =
  rel :: string
  field :: string
  op :: string
  "value" :: string

text \<open>
  The operator group \<^verbatim>\<open>(=|!=|\blike\b)\<close> at a position whose previous character is
  \<open>prev\<close>: the matched text and the rest.
\<close>

definition match_op :: "char option \<Rightarrow> string \<Rightarrow> (string \<times> string) option" where
  "match_op prev s =
     (if take 1 s = ''='' then Some (''='', drop 1 s)
      else if take 2 s = ''!='' then Some (''!='', drop 2 s)
      else (case match_ci ''like'' s of
              None \<Rightarrow> None
            | Some r \<Rightarrow>
                if \<not> word_before prev \<and> \<not> word_next r then Some (take 4 s, r) else None))"

text \<open>
  The literal group \<^verbatim>\<open>("([^"]*)"|'([^']*)')\<close>: the whole literal, its inner text and
  the rest.
\<close>

definition match_literal :: "string \<Rightarrow> (string \<times> string \<times> string) option" where
  "match_literal s =
     (case s of
        [] \<Rightarrow> None
      | q # t \<Rightarrow>
          if (q = dquote \<or> q = squote) \<and> q \<in> set t
          then Some (q # takeWhile (\<lambda>c. c \<noteq> q) t @ [q],
                     takeWhile (\<lambda>c. c \<noteq> q) t,
                     tl (dropWhile (\<lambda>c. c \<noteq> q) t))
          else None)"

text \<open>
  One attempt of the detector's expression
  \<^verbatim>\<open>\b([A-Za-z_][A-Za-z0-9_]*)\s*\.\s*([A-Za-z_][A-Za-z0-9_]*)\s*(=|!=|\blike\b)\s*("([^"]*)"|'([^']*)')\<close>
  at one position. Every quantifier is followed by a character it cannot itself match, so
  the greedy choice is the only one that can succeed and backtracking finds nothing more.
\<close>

definition detect_at :: "char option \<Rightarrow> string \<Rightarrow> (predicate \<times> string) option" where
  "detect_at prev s =
     (if \<not> boundary prev s then None
      else
        let r = takeWhile is_word s; s1 = dropWhile is_word s in
        if r = [] \<or> \<not> is_ident_start (hd r) then None
        else (case dropWhile is_space s1 of
            [] \<Rightarrow> None
          | d # s3 \<Rightarrow>
              if d \<noteq> CHR ''.'' then None
              else
                let s4 = dropWhile is_space s3;
                    f = takeWhile is_word s4;
                    s6 = dropWhile is_space (dropWhile is_word s4)
                in if f = [] \<or> \<not> is_ident_start (hd f) then None
                   else (case match_op (prev_of prev s s6) s6 of
                       None \<Rightarrow> None
                     | Some (opRaw, s7) \<Rightarrow>
                         (case match_literal (dropWhile is_space s7) of
                            None \<Rightarrow> None
                          | Some (lit, inner, rest) \<Rightarrow>
                              Some (\<lparr>rel = trim r, field = trim f, op = normalizeOp opRaw,
                                     value = inner\<rparr>, rest)))))"

text \<open>
  The \<^verbatim>\<open>while ((m = re.exec(w)))\<close> loop under the \<^verbatim>\<open>g\<close> flag: the leftmost match
  from the current position is recorded and the search resumes behind it; a position
  without a match is skipped. The character before the resumed position is the closing
  quote of the match.
\<close>

function detect_from :: "char option \<Rightarrow> string \<Rightarrow> predicate list" where
  "detect_from prev [] = []"
| "detect_from prev (c # cs) =
     (case detect_at prev (c # cs) of
        Some (p, rest) \<Rightarrow> p # detect_from (prev_of prev (c # cs) rest) rest
      | None \<Rightarrow> detect_from (Some c) cs)"
  by pat_completeness auto
termination
proof -
  have ci: "length r \<le> length s" if "match_ci p s = Some r" for p s r
    using that by (induction p s rule: match_ci.induct) (auto split: if_splits)
  have mo: "length r \<le> length s" if "match_op prev s = Some (t, r)" for prev s t r
    using that by (auto simp: match_op_def split: if_splits option.splits dest: ci)
  have ml: "length r < length s" if "match_literal s = Some (lit, inner, r)" for s lit inner r
  proof -
    from that obtain q t where s: "s = q # t" and r: "r = tl (dropWhile (\<lambda>c. c \<noteq> q) t)"
      by (auto simp: match_literal_def split: list.splits if_splits)
    have "length (dropWhile (\<lambda>c. c \<noteq> q) t) \<le> length t"
      by (rule length_dropWhile_le)
    then show ?thesis
      using s r by simp
  qed
  have da: "length rest < length s" if "detect_at prev s = Some (p, rest)" for prev s p rest
  proof -
    from that obtain d s3 opRaw s7 lit inner where
      a: "dropWhile is_space (dropWhile is_word s) = d # s3"
      and b: "match_op
                (prev_of prev s (dropWhile is_space (dropWhile is_word (dropWhile is_space s3))))
                (dropWhile is_space (dropWhile is_word (dropWhile is_space s3))) = Some (opRaw, s7)"
      and c: "match_literal (dropWhile is_space s7) = Some (lit, inner, rest)"
      by (auto simp: detect_at_def Let_def split: if_splits list.splits option.splits)
    have l1: "length (d # s3) \<le> length s"
      using length_dropWhile_le [of is_space "dropWhile is_word s"]
        length_dropWhile_le [of is_word s] a by simp
    have l2: "length (dropWhile is_space (dropWhile is_word (dropWhile is_space s3))) \<le> length s3"
      using length_dropWhile_le [of is_space "dropWhile is_word (dropWhile is_space s3)"]
        length_dropWhile_le [of is_word "dropWhile is_space s3"]
        length_dropWhile_le [of is_space s3] by simp
    have l3: "length s7 \<le> length s3"
      using mo [OF b] l2 by simp
    have l4: "length rest < length (dropWhile is_space s7)"
      by (rule ml [OF c])
    have l5: "length (dropWhile is_space s7) \<le> length s7"
      by (rule length_dropWhile_le)
    show ?thesis
      using l1 l3 l4 l5 by simp
  qed
  show ?thesis
    by (relation "measure (\<lambda>(prev, s). length s)") (auto dest: da)
qed

definition detectRelationshipPredicates :: "string \<Rightarrow> predicate list" where
  "detectRelationshipPredicates w = detect_from None w"

section \<open>The rewriter's clause pattern and \<^verbatim>\<open>String.prototype.replace\<close>\<close>

text \<open>
  One attempt, at one position, of the expression the planner builds for a predicate,
  \<^verbatim>\<open>\b<rel>\s*\.\s*<field>\s*(=|!=|\blike\b)\s*("[^"]*"|'[^']*')\<close> with the
  \<^verbatim>\<open>i\<close> flag. The relation and field names come from the detector, so they are
  identifiers and stand for themselves in the pattern. The result is the two captures
  (operator, literal) and the rest of the text.
\<close>

definition clause_at ::
  "string \<Rightarrow> string \<Rightarrow> char option \<Rightarrow> string \<Rightarrow> (string \<times> string \<times> string) option" where
  "clause_at relName fld prev s =
     (if \<not> boundary prev s then None
      else (case match_ci relName s of
          None \<Rightarrow> None
        | Some s1 \<Rightarrow>
            (case dropWhile is_space s1 of
               [] \<Rightarrow> None
             | d # s3 \<Rightarrow>
                 if d \<noteq> CHR ''.'' then None
                 else (case match_ci fld (dropWhile is_space s3) of
                     None \<Rightarrow> None
                   | Some s5 \<Rightarrow>
                       let s6 = dropWhile is_space s5 in
                       (case match_op (prev_of prev s s6) s6 of
                          None \<Rightarrow> None
                        | Some (opRaw, s7) \<Rightarrow>
                            (case match_literal (dropWhile is_space s7) of
                               None \<Rightarrow> None
                             | Some (lit, inner, rest) \<Rightarrow> Some (opRaw, lit, rest)))))))"

text \<open>
  The leftmost match of the clause pattern (the expression has no \<^verbatim>\<open>g\<close> flag): the
  text before the match, the matched text, the captures and the text after it.
\<close>

fun find_clause ::
  "string \<Rightarrow> string \<Rightarrow> char option \<Rightarrow> string \<Rightarrow> (string \<times> string \<times> string list \<times> string) option" where
  "find_clause relName fld prev [] = None"
| "find_clause relName fld prev (c # cs) =
     (case clause_at relName fld prev (c # cs) of
        Some (opRaw, lit, rest) \<Rightarrow>
          Some ([], take (length (c # cs) - length rest) (c # cs), [opRaw, lit], rest)
      | None \<Rightarrow>
          map_option (\<lambda>(b, m, caps, a). (c # b, m, caps, a))
            (find_clause relName fld (Some c) cs))"

definition digit_val :: "char \<Rightarrow> nat" where
  "digit_val c = of_char c - 48"

text \<open>
  ECMAScript's GetSubstitution, which \<^verbatim>\<open>replace\<close> applies to a replacement given as
  a string: \<^verbatim>\<open>$$\<close> is a dollar sign, \<^verbatim>\<open>$&\<close> the matched text, \<^verbatim>\<open>$`\<close> and
  \<^verbatim>\<open>$'\<close> the text before and after the match, \<^verbatim>\<open>$n\<close> and \<^verbatim>\<open>$nn\<close> a capture
  (a two-digit index beyond the captures is read as one digit followed by a literal
  digit); every other character, and a dollar sign followed by anything else, stands for
  itself. The clause pattern has no named groups, so \<^verbatim>\<open>$<\<close> is literal.
\<close>

fun getSubstitution :: "string \<Rightarrow> string \<Rightarrow> string \<Rightarrow> string list \<Rightarrow> string \<Rightarrow> string" where
  "getSubstitution matched pre post caps [] = []"
| "getSubstitution matched pre post caps [c] = [c]"
| "getSubstitution matched pre post caps (c # d # t) =
     (if c \<noteq> dollar then c # getSubstitution matched pre post caps (d # t)
      else if d = dollar then dollar # getSubstitution matched pre post caps t
      else if d = CHR ''&'' then matched @ getSubstitution matched pre post caps t
      else if d = CHR 0x60 then pre @ getSubstitution matched pre post caps t
      else if d = squote then post @ getSubstitution matched pre post caps t
      else if is_digit d then
        (case t of
           e # t' \<Rightarrow>
             if is_digit e \<and> 10 * digit_val d + digit_val e \<le> length caps then
               (if 1 \<le> 10 * digit_val d + digit_val e
                then caps ! (10 * digit_val d + digit_val e - 1) else [c, d, e])
               @ getSubstitution matched pre post caps t'
             else
               (if 1 \<le> digit_val d \<and> digit_val d \<le> length caps
                then caps ! (digit_val d - 1) else [c, d])
               @ getSubstitution matched pre post caps t
         | [] \<Rightarrow>
             (if 1 \<le> digit_val d \<and> digit_val d \<le> length caps
              then caps ! (digit_val d - 1) else [c, d]))
      else c # getSubstitution matched pre post caps (d # t))"

text \<open>
  \<^verbatim>\<open>mutatedWhere.replace(clauseRe, replacement)\<close>: the leftmost match is replaced by
  the substituted replacement; a text without a match is returned as it is.
\<close>

definition replaceClause :: "string \<Rightarrow> string \<Rightarrow> string \<Rightarrow> string \<Rightarrow> string" where
  "replaceClause relName fld replacement w =
     (case find_clause relName fld None w of
        None \<Rightarrow> w
      | Some (b, m, caps, a) \<Rightarrow> b @ getSubstitution m b a caps replacement @ a)"

section \<open>buildOrBlock\<close>

fun join :: "string \<Rightarrow> string list \<Rightarrow> string" where
  "join sep [] = []"
| "join sep [x] = x"
| "join sep (x # y # xs) = x @ sep @ join sep (y # xs)"

definition eqClause :: "string \<Rightarrow> string \<Rightarrow> string" where
  "eqClause rootJoinField k = rootJoinField @ ''='' @ [dquote] @ escapeWhereString k @ [dquote]"

definition buildOrBlock :: "string \<Rightarrow> string list \<Rightarrow> string" where
  "buildOrBlock rootJoinField keys =
     ''('' @ join '' or '' (map (eqClause rootJoinField) keys) @ '')''"

section \<open>The relationship configuration store\<close>

text \<open>
  A configuration entry. The planner reads every field as \<^verbatim>\<open>relCfg.f || default\<close>, so
  an absent field is the empty string or 0. The fields are typed: strings and integers.
\<close>

record relcfg =
  relatedOs :: string
  rootJoinField :: string
  relatedKeyField :: string
  relatedSiteField :: string
  maxKeys :: int
  pageSize :: int
  select :: string

text \<open>
  The \<^verbatim>\<open>relationships\<close> object of a layer: root resource to relation alias to entry.
\<close>

type_synonym relationships = "string \<rightharpoonup> (string \<rightharpoonup> relcfg)"

definition builtInEntry :: "string \<Rightarrow> string \<Rightarrow> relcfg" where
  "builtInEntry ros key =
     \<lparr>relatedOs = ros, rootJoinField = key, relatedKeyField = key,
      relatedSiteField = ''siteid'', maxKeys = 50, pageSize = 200, select = key\<rparr>"

definition builtIn :: relationships where
  "builtIn = map_of
     [(''mxapiwo'', map_of [(''asset'', builtInEntry ''mxapiasset'' ''assetnum''),
                            (''location'', builtInEntry ''mxapilocations'' ''location'')]),
      (''mxapisr'', map_of [(''asset'', builtInEntry ''mxapiasset'' ''assetnum'')]),
      (''mxapipo'', map_of [(''vendor'', builtInEntry ''mxapivendor'' ''vendor'')]),
      (''mxapipr'', map_of [(''vendor'', builtInEntry ''mxapivendor'' ''vendor'')])]"

text \<open>
  \<^verbatim>\<open>loadRelationshipsConfig\<close>. Reading and parsing a file gives its
  \<^verbatim>\<open>relationships\<close> object, or nothing when the file is absent, unreadable, malformed
  or has no such object. The merge is two object spreads over the keys of
  \<^verbatim>\<open>relationships\<close>, which are the root resources:
  \<^verbatim>\<open>out.relationships = { ...out.relationships, ...defaults.relationships }\<close>, then the
  same with the tenant file.
\<close>

definition spread :: "relationships \<Rightarrow> relationships option \<Rightarrow> relationships" where
  "spread out layer = (case layer of None \<Rightarrow> out | Some l \<Rightarrow> out ++ l)"

definition loadRelationshipsConfig ::
  "relationships option \<Rightarrow> relationships option \<Rightarrow> relationships" where
  "loadRelationshipsConfig defaults tenant = spread (spread builtIn defaults) tenant"

section \<open>Responses of the transport and \<^verbatim>\<open>prefetchKeys\<close>\<close>

text \<open>
  What the transport returns is a JSON-like value. Numbers are integers. Property access
  is modelled on objects only, by their own keys.
\<close>

datatype jsv = JNull | JBool bool | JNum int | JStr string | JArr "jsv list"
  | JObj "(string \<times> jsv) list"

fun truthy :: "jsv \<Rightarrow> bool" where
  "truthy JNull = False"
| "truthy (JBool b) = b"
| "truthy (JNum n) = (n \<noteq> 0)"
| "truthy (JStr s) = (s \<noteq> [])"
| "truthy (JArr xs) = True"
| "truthy (JObj kvs) = True"

fun getProp :: "jsv \<Rightarrow> string \<Rightarrow> jsv option" where
  "getProp (JObj kvs) k = map_of kvs k"
| "getProp v k = None"

fun string_of_nat :: "nat \<Rightarrow> string" where
  "string_of_nat n =
     (if n < 10 then [char_of (48 + n)]
      else string_of_nat (n div 10) @ [char_of (48 + n mod 10)])"

declare string_of_nat.simps [simp del]

definition string_of_int :: "int \<Rightarrow> string" where
  "string_of_int i = (if i < 0 then ''-'' @ string_of_nat (nat (- i)) else string_of_nat (nat i))"

text \<open>\<^verbatim>\<open>String(x)\<close>; in an array, \<^verbatim>\<open>null\<close> is printed as the empty string.\<close>

fun toStr :: "jsv \<Rightarrow> string" where
  "toStr JNull = ''null''"
| "toStr (JBool b) = (if b then ''true'' else ''false'')"
| "toStr (JNum n) = string_of_int n"
| "toStr (JStr s) = s"
| "toStr (JArr xs) = join '','' (map (\<lambda>x. if x = JNull then [] else toStr x) xs)"
| "toStr (JObj kvs) = ''[object Object]''"

definition getOslcMembers :: "jsv \<Rightarrow> jsv list" where
  "getOslcMembers body =
     (case body of
        JObj kvs \<Rightarrow>
          (let one = (case getProp body ''member'' of
                        Some (JArr m1) \<Rightarrow> m1
                      | _ \<Rightarrow> (case getProp body ''rdfs:member'' of Some (JArr m2) \<Rightarrow> m2 | _ \<Rightarrow> []))
           in case one of [JArr inner] \<Rightarrow> inner | _ \<Rightarrow> one)
      | _ \<Rightarrow> [])"

text \<open>
  The request of a prefetch: the API base, the related object structure and the query
  parameters \<^verbatim>\<open>oslc.pageSize\<close>, \<^verbatim>\<open>oslc.select\<close> and \<^verbatim>\<open>oslc.where\<close>
  (\<^verbatim>\<open>lean\<close> is always 1), before they are serialised into the URL.
\<close>

record request =
  req_apiBase :: string
  req_relatedOs :: string
  req_pageSize :: int
  req_select :: string
  req_where :: string

text \<open>
  The parameter bag maps a parameter name to its string value. The caller shares it with
  the planner, so code outside the planner can read it while the planner runs.
\<close>

type_synonym params = "string \<rightharpoonup> string"

text \<open>
  The transport \<^verbatim>\<open>maximoFetch\<close> (with \<^verbatim>\<open>authHeaders\<close>, called for its argument):
  from the state of the outside world, the parameter bag as it is at the time of the call
  and a request, either the message of the exception it throws or the value it returns,
  and the next state of the world.
\<close>

type_synonym 'w transport = "'w \<Rightarrow> params \<Rightarrow> request \<Rightarrow> (string + jsv) \<times> 'w"

text \<open>
  The body of a response: the returned value itself, or for the envelope shape
  \<^verbatim>\<open>{ r, respText }\<close> the parsed text, and \<^verbatim>\<open>{ raw: respText }\<close> when the text
  does not parse (or parses to \<^verbatim>\<open>null\<close>). \<^verbatim>\<open>JSON.parse\<close> is a parameter.
\<close>

definition responseBody :: "(string \<Rightarrow> jsv option) \<Rightarrow> jsv \<Rightarrow> jsv" where
  "responseBody parse r2 =
     (case (getProp r2 ''r'', getProp r2 ''respText'') of
        (Some r, Some (JStr respText)) \<Rightarrow>
          if truthy r then
            (case parse respText of
               None \<Rightarrow> JObj [(''raw'', JStr respText)]
             | Some b \<Rightarrow> if b = JNull then JObj [(''raw'', JStr respText)] else b)
          else r2
      | _ \<Rightarrow> r2)"

text \<open>
  \<^verbatim>\<open>members.map((it) => it?.[relatedKeyField]).filter(Boolean).map((x) => String(x).trim())\<close>
\<close>

definition extractKeys :: "string \<Rightarrow> jsv list \<Rightarrow> string list" where
  "extractKeys rkf members =
     map (\<lambda>x. trim (toStr x))
       (filter truthy (List.map_filter (\<lambda>it. getProp it rkf) members))"

definition prefetchRequest :: "string \<Rightarrow> string \<Rightarrow> string \<Rightarrow> string \<Rightarrow> int \<Rightarrow> string \<Rightarrow> request" where
  "prefetchRequest apiBase ros relatedWhere sel psize rkf =
     \<lparr>req_apiBase = apiBase, req_relatedOs = ros,
      req_pageSize = (if psize = 0 then 200 else psize),
      req_select = (if sel = [] then rkf else sel),
      req_where = relatedWhere\<rparr>"

definition prefetchKeys ::
  "'w transport \<Rightarrow> (string \<Rightarrow> jsv option) \<Rightarrow> 'w \<Rightarrow> params \<Rightarrow> string \<Rightarrow> string \<Rightarrow> string
     \<Rightarrow> string \<Rightarrow> int \<Rightarrow> string \<Rightarrow> (string + string list) \<times> 'w" where
  "prefetchKeys fetch parse w ps apiBase ros relatedWhere sel psize rkf =
     (case fetch w ps (prefetchRequest apiBase ros relatedWhere sel psize rkf) of
        (Inl e, w') \<Rightarrow> (Inl e, w')
      | (Inr r2, w') \<Rightarrow> (Inr (extractKeys rkf (getOslcMembers (responseBody parse r2))), w'))"

section \<open>The plan\<close>

datatype plan_step =
  Prefetch string string string string string string int
  \<comment> \<open>relationship, relatedOs, relatedWhere, select, rootJoinField, relatedKeyField, maxKeys\<close>
| PrefetchResult string nat nat
  \<comment> \<open>relationship, keysReturned, keysUsed\<close>
| Rewrite string string "string option"
  \<comment> \<open>relationship, replacedWith, note\<close>

fun kind :: "plan_step \<Rightarrow> string" where
  "kind (Prefetch r ros rw sel rjf rkf mk) = ''prefetch''"
| "kind (PrefetchResult r n m) = ''prefetch_result''"
| "kind (Rewrite r w n) = ''rewrite''"

fun relationship :: "plan_step \<Rightarrow> string" where
  "relationship (Prefetch r ros rw sel rjf rkf mk) = r"
| "relationship (PrefetchResult r n m) = r"
| "relationship (Rewrite r w n) = r"

text \<open>An entry of \<^verbatim>\<open>plan.errors\<close>: the relationship (absent for a planner-level error) and the message.\<close>

record plan =
  mode :: string
  detected :: "predicate list"
  steps :: "plan_step list"
  truncated :: bool
  errors :: "(string option \<times> string) list"

definition emptyPlan :: plan where
  "emptyPlan = \<lparr>mode = ''none'', detected = [], steps = [], truncated = False, errors = []\<rparr>"

section \<open>The related-resource filter\<close>

text \<open>
  The guard \<^verbatim>\<open>/(^|\W)siteid\s*(=|!=|\bin\b)/i.test(relWhere)\<close>: first the expression
  behind \<^verbatim>\<open>(^|\W)\<close> at one position, then the search over all positions.
\<close>

definition siteid_at :: "string \<Rightarrow> bool" where
  "siteid_at s =
     (case match_ci ''siteid'' s of
        None \<Rightarrow> False
      | Some r \<Rightarrow>
          let r' = dropWhile is_space r in
          take 1 r' = ''='' \<or> take 2 r' = ''!='' \<or>
          (case match_ci ''in'' r' of
             None \<Rightarrow> False
           | Some t \<Rightarrow> length r' < length r \<and> \<not> word_next t))"

fun siteid_from :: "char option \<Rightarrow> string \<Rightarrow> bool" where
  "siteid_from prev [] = False"
| "siteid_from prev (c # cs) =
     ((\<not> word_before prev \<and> siteid_at (c # cs)) \<or> siteid_from (Some c) cs)"

definition mentionsSiteid :: "string \<Rightarrow> bool" where
  "mentionsSiteid w = siteid_from None w"

text \<open>
  The caller's default site is absent, or a string; it counts as supplied when it is a
  non-empty string (\<^verbatim>\<open>if (defaultSite && relatedSiteField)\<close>).
\<close>

definition predicateClause :: "predicate \<Rightarrow> string" where
  "predicateClause p =
     field p @ '' ''
       @ (if op p = ''like'' then ''like'' else if op p = ''!='' then ''!='' else ''='')
       @ '' '' @ [dquote] @ escapeWhereString (value p) @ [dquote]"

definition buildRelWhere :: "predicate \<Rightarrow> string option \<Rightarrow> string \<Rightarrow> string" where
  "buildRelWhere p defaultSite rsf =
     (let relWhere = predicateClause p in
      case defaultSite of
        None \<Rightarrow> relWhere
      | Some site \<Rightarrow>
          if site \<noteq> [] \<and> rsf \<noteq> [] \<and> \<not> mentionsSiteid relWhere
          then rsf @ ''='' @ [dquote] @ escapeWhereString site @ [dquote] @ '' and '' @ relWhere
          else relWhere)"

section \<open>applyRelationshipPrefetch\<close>

text \<open>
  What the planner is given besides the parameters: the transport, \<^verbatim>\<open>JSON.parse\<close>,
  the result of \<^verbatim>\<open>maximoApiBase(t)\<close> (a message when it throws), the environment
  variable \<^verbatim>\<open>MAX_PREFETCH_KEYS\<close> (absent or empty, or a number), the caller's default
  site, and the two override layers as read from the files.
\<close>

record 'w collab =
  maximoFetch :: "'w transport"
  jsonParse :: "string \<Rightarrow> jsv option"
  maximoApiBase :: "string + string"
  envMaxPrefetchKeys :: "int option"
  defaultSite :: "string option"
  defaultsLayer :: "relationships option"
  tenantLayer :: "relationships option"

text \<open>
  What the loop can touch: the plan, \<^verbatim>\<open>mutatedWhere\<close>, the parameter bag
  \<^verbatim>\<open>params\<close> and the outside world.
\<close>

record 'w loop_state =
  lplan :: plan
  mutatedWhere :: string
  bag :: params
  world :: 'w

definition falseClause :: "string \<Rightarrow> string" where
  "falseClause rjf = rjf @ ''='' @ [dquote] @ ''__NO_MATCH__'' @ [dquote]"

text \<open>
  \<^verbatim>\<open>Number(relCfg.maxKeys || process.env.MAX_PREFETCH_KEYS || 50)\<close>
\<close>

definition effectiveMaxKeys :: "relcfg \<Rightarrow> int option \<Rightarrow> int" where
  "effectiveMaxKeys relCfg env =
     (if maxKeys relCfg \<noteq> 0 then maxKeys relCfg
      else (case env of Some n \<Rightarrow> n | None \<Rightarrow> 50))"

text \<open>
  \<^verbatim>\<open>relsForOs?.[relName]\<close> followed by the check
  \<^verbatim>\<open>if (!relatedOs || !rootJoinField || !relatedKeyField) continue\<close>: the entry a
  predicate is processed with, if any.
\<close>

definition usableCfg :: "(string \<rightharpoonup> relcfg) option \<Rightarrow> string \<Rightarrow> relcfg option" where
  "usableCfg relsForOs relName =
     (case relsForOs of
        None \<Rightarrow> None
      | Some rels \<Rightarrow>
          (case rels relName of
             None \<Rightarrow> None
           | Some relCfg \<Rightarrow>
               if trim (relatedOs relCfg) = [] \<or> trim (rootJoinField relCfg) = []
                  \<or> trim (relatedKeyField relCfg) = []
               then None else Some relCfg))"

text \<open>One iteration of \<^verbatim>\<open>for (const p of preds)\<close>.\<close>

definition processPredicate ::
  "'w collab \<Rightarrow> string \<Rightarrow> (string \<rightharpoonup> relcfg) option \<Rightarrow> predicate \<Rightarrow> 'w loop_state \<Rightarrow> 'w loop_state" where
  "processPredicate c apiBase relsForOs p st =
     (case usableCfg relsForOs (rel p) of
        None \<Rightarrow> st
      | Some relCfg \<Rightarrow>
          let relName = rel p;
              ros = trim (relatedOs relCfg);
              rjf = trim (rootJoinField relCfg);
              rkf = trim (relatedKeyField relCfg);
              rsf = trim (relatedSiteField relCfg);
              sel = (if trim (select relCfg) = [] then rkf else trim (select relCfg));
              psize = (if pageSize relCfg = 0 then 200 else pageSize relCfg);
              mk = effectiveMaxKeys relCfg (envMaxPrefetchKeys c);
              relWhere = buildRelWhere p (defaultSite c) rsf;
              plan1 = (lplan st)\<lparr>mode := ''prefetch'',
                        steps := steps (lplan st) @ [Prefetch relName ros relWhere sel rjf rkf mk]\<rparr>
          in (case prefetchKeys (maximoFetch c) (jsonParse c) (world st) (bag st) apiBase ros
                     relWhere sel psize rkf of
                (Inl msg, w') \<Rightarrow>
                  st\<lparr>lplan := plan1\<lparr>errors := errors plan1 @ [(Some relName, msg)]\<rparr>,
                     world := w'\<rparr>
              | (Inr out, w') \<Rightarrow>
                  let keys = take (nat (max 0 mk)) out;
                      plan2 = plan1\<lparr>truncated := (truncated plan1 \<or> length keys < length out),
                                steps := steps plan1
                                  @ [PrefetchResult relName (length out) (length keys)]\<rparr>
                  in if keys = [] then
                       st\<lparr>lplan := plan2\<lparr>steps := steps plan2
                              @ [Rewrite relName (falseClause rjf) (Some ''no related matches'')]\<rparr>,
                          mutatedWhere :=
                            replaceClause relName (field p) (falseClause rjf) (mutatedWhere st),
                          world := w'\<rparr>
                     else
                       st\<lparr>lplan := plan2\<lparr>steps := steps plan2
                              @ [Rewrite relName (buildOrBlock rjf keys) None]\<rparr>,
                          mutatedWhere :=
                            replaceClause relName (field p) (buildOrBlock rjf keys)
                              (mutatedWhere st),
                          world := w'\<rparr>))"

fun processPredicates ::
  "'w collab \<Rightarrow> string \<Rightarrow> (string \<rightharpoonup> relcfg) option \<Rightarrow> predicate list \<Rightarrow> 'w loop_state \<Rightarrow> 'w loop_state" where
  "processPredicates c apiBase relsForOs [] st = st"
| "processPredicates c apiBase relsForOs (p # ps) st =
     processPredicates c apiBase relsForOs ps (processPredicate c apiBase relsForOs p st)"

text \<open>
  \<^verbatim>\<open>cfg?.relationships?.[String(os || "").toLowerCase()] || cfg?.relationships?.[String(os || "")] || null\<close>
\<close>

definition relsForOs :: "relationships \<Rightarrow> string \<Rightarrow> (string \<rightharpoonup> relcfg) option" where
  "relsForOs cfg os =
     (case cfg (toLowerCase os) of Some rels \<Rightarrow> Some rels | None \<Rightarrow> cfg os)"

text \<open>
  The whole call: the plan, the bag after the call and the world after the call. An
  exception of \<^verbatim>\<open>maximoApiBase\<close> is caught by the outer \<^verbatim>\<open>catch\<close>. The bag is
  written in one place, behind the loop:
  \<^verbatim>\<open>if (mutatedWhere !== where) params["oslc.where"] = mutatedWhere\<close>.
\<close>

definition whereOf :: "params \<Rightarrow> string" where
  "whereOf ps = (case ps ''oslc.where'' of None \<Rightarrow> [] | Some w \<Rightarrow> w)"

definition loopStart :: "params \<Rightarrow> 'w \<Rightarrow> 'w loop_state" where
  "loopStart ps w =
     \<lparr>lplan = emptyPlan\<lparr>detected := detectRelationshipPredicates (whereOf ps)\<rparr>,
      mutatedWhere = whereOf ps, bag = ps, world = w\<rparr>"

definition applyRelationshipPrefetch ::
  "'w collab \<Rightarrow> string \<Rightarrow> params \<Rightarrow> 'w \<Rightarrow> plan \<times> params \<times> 'w" where
  "applyRelationshipPrefetch c os ps w =
     (let wh = whereOf ps in
      if wh = [] then (emptyPlan, ps, w)
      else
        let cfg = loadRelationshipsConfig (defaultsLayer c) (tenantLayer c);
            preds = detectRelationshipPredicates wh
        in if preds = [] then (emptyPlan, ps, w)
           else (case maximoApiBase c of
               Inl msg \<Rightarrow>
                 (emptyPlan\<lparr>detected := preds, mode := ''error'', errors := [(None, msg)]\<rparr>, ps, w)
             | Inr apiBase \<Rightarrow>
                 let st = processPredicates c apiBase (relsForOs cfg os) preds (loopStart ps w)
                 in (lplan st,
                     if mutatedWhere st \<noteq> wh
                     then (bag st)(''oslc.where'' \<mapsto> mutatedWhere st) else bag st,
                     world st)))"

section \<open>Notions used in the statements\<close>

text \<open>The entry of a layer for a root resource, and the entry for a relation alias in it.\<close>

definition layerRoot :: "relationships option \<Rightarrow> string \<Rightarrow> (string \<rightharpoonup> relcfg) option" where
  "layerRoot layer os = (case layer of None \<Rightarrow> None | Some l \<Rightarrow> l os)"

definition relEntry :: "(string \<rightharpoonup> relcfg) option \<Rightarrow> string \<Rightarrow> relcfg option" where
  "relEntry rels relName = (case rels of None \<Rightarrow> None | Some m \<Rightarrow> m relName)"

text \<open>The plan and the parameter bag a call returns.\<close>

definition planOf :: "'w collab \<Rightarrow> string \<Rightarrow> params \<Rightarrow> 'w \<Rightarrow> plan" where
  "planOf c os ps w = fst (applyRelationshipPrefetch c os ps w)"

definition paramsAfter :: "'w collab \<Rightarrow> string \<Rightarrow> params \<Rightarrow> 'w \<Rightarrow> params" where
  "paramsAfter c os ps w = fst (snd (applyRelationshipPrefetch c os ps w))"

text \<open>The variables of the loop when the first \<open>n\<close> detected predicates have been processed.\<close>

definition stateAfter ::
  "'w collab \<Rightarrow> string \<Rightarrow> params \<Rightarrow> 'w \<Rightarrow> string \<Rightarrow> nat \<Rightarrow> 'w loop_state" where
  "stateAfter c os ps w apiBase n =
     processPredicates c apiBase
       (relsForOs (loadRelationshipsConfig (defaultsLayer c) (tenantLayer c)) os)
       (take n (detectRelationshipPredicates (whereOf ps))) (loopStart ps w)"

text \<open>
  The values one iteration computes from the entry and the predicate: the projection, the
  request handed to the transport, the \<^verbatim>\<open>prefetch\<close> step, the keys
  \<^verbatim>\<open>prefetchKeys\<close> extracts from a returned value and the keys left by
  \<^verbatim>\<open>slice(0, Math.max(0, maxKeys))\<close>.
\<close>

definition cfgSelect :: "relcfg \<Rightarrow> string" where
  "cfgSelect relCfg =
     (if trim (select relCfg) = [] then trim (relatedKeyField relCfg) else trim (select relCfg))"

definition predicateRequest :: "'w collab \<Rightarrow> string \<Rightarrow> relcfg \<Rightarrow> predicate \<Rightarrow> request" where
  "predicateRequest c apiBase relCfg p =
     prefetchRequest apiBase (trim (relatedOs relCfg))
       (buildRelWhere p (defaultSite c) (trim (relatedSiteField relCfg)))
       (cfgSelect relCfg) (if pageSize relCfg = 0 then 200 else pageSize relCfg)
       (trim (relatedKeyField relCfg))"

definition prefetchStep :: "'w collab \<Rightarrow> relcfg \<Rightarrow> predicate \<Rightarrow> plan_step" where
  "prefetchStep c relCfg p =
     Prefetch (rel p) (trim (relatedOs relCfg))
       (buildRelWhere p (defaultSite c) (trim (relatedSiteField relCfg)))
       (cfgSelect relCfg) (trim (rootJoinField relCfg)) (trim (relatedKeyField relCfg))
       (effectiveMaxKeys relCfg (envMaxPrefetchKeys c))"

definition resolvedKeys :: "'w collab \<Rightarrow> relcfg \<Rightarrow> jsv \<Rightarrow> string list" where
  "resolvedKeys c relCfg r2 =
     extractKeys (trim (relatedKeyField relCfg)) (getOslcMembers (responseBody (jsonParse c) r2))"

definition usedKeys :: "'w collab \<Rightarrow> relcfg \<Rightarrow> jsv \<Rightarrow> string list" where
  "usedKeys c relCfg r2 =
     take (nat (max 0 (effectiveMaxKeys relCfg (envMaxPrefetchKeys c)))) (resolvedKeys c relCfg r2)"

text \<open>
  Reading a double-quoted literal in which a backslash escapes the character behind it,
  the convention \<^verbatim>\<open>escapeWhereString\<close> writes for. The text starts behind the opening
  quote; the result is the value read and the text behind the closing quote, or nothing
  when the literal is not closed.
\<close>

fun scanLiteral :: "string \<Rightarrow> (string \<times> string) option" where
  "scanLiteral [] = None"
| "scanLiteral (c # t) =
     (if c = dquote then Some ([], t)
      else if c = backslash then
        (case t of
           [] \<Rightarrow> None
         | d # t' \<Rightarrow> map_option (\<lambda>(v, r). (d # v, r)) (scanLiteral t'))
      else map_option (\<lambda>(v, r). (c # v, r)) (scanLiteral t))"

section \<open>Sample inputs\<close>

text \<open>
  A response with one member per key; a transport that plays back a script of outcomes
  (the world is what is left of the script); collaborators around it; a parameter bag with
  a filter and a projection.
\<close>

definition membersOf :: "string \<Rightarrow> string list \<Rightarrow> jsv" where
  "membersOf fld ks = JObj [(''member'', JArr (map (\<lambda>k. JObj [(fld, JStr k)]) ks))]"

definition scripted :: "((string + jsv) list) transport" where
  "scripted w ps r =
     (case w of [] \<Rightarrow> (Inl ''no response scripted'', []) | x # xs \<Rightarrow> (x, xs))"

definition sampleCollab ::
  "string option \<Rightarrow> relationships option \<Rightarrow> ((string + jsv) list) collab" where
  "sampleCollab site tenant =
     \<lparr>maximoFetch = scripted, jsonParse = (\<lambda>s. None),
      maximoApiBase = Inr ''https://host/maximo/api'', envMaxPrefetchKeys = None,
      defaultSite = site, defaultsLayer = None, tenantLayer = tenant\<rparr>"

text \<open>
  A transport that answers every request with an empty member list and keeps the requests
  it was given (the world is the list of requests so far), and collaborators around it.
\<close>

definition recording :: "(request list) transport" where
  "recording w ps r = (Inr (JObj [(''member'', JArr [])]), w @ [r])"

definition recordingCollab :: "string option \<Rightarrow> (request list) collab" where
  "recordingCollab site =
     \<lparr>maximoFetch = recording, jsonParse = (\<lambda>s. None),
      maximoApiBase = Inr ''https://host/maximo/api'', envMaxPrefetchKeys = None,
      defaultSite = site, defaultsLayer = None, tenantLayer = None\<rparr>"

definition sampleParams :: "string \<Rightarrow> params" where
  "sampleParams wh = map_of [(''oslc.where'', wh), (''oslc.select'', ''wonum'')]"

definition sampleState :: "string \<Rightarrow> (string + jsv) list \<Rightarrow> ((string + jsv) list) loop_state" where
  "sampleState wh w = loopStart (sampleParams wh) w"

definition sensorWhere :: string where
  \<open>sensorWhere = ''asset.assettype="SENSOR"''\<close>

definition sensorPredicate :: predicate where
  "sensorPredicate = \<lparr>rel = ''asset'', field = ''assettype'', op = ''='', value = ''SENSOR''\<rparr>"

definition assetCfg :: relcfg where
  "assetCfg = builtInEntry ''mxapiasset'' ''assetnum''"

definition twoKeys :: jsv where
  "twoKeys = membersOf ''assetnum'' [''A100'', ''A101'']"

definition noKeys :: jsv where
  "noKeys = membersOf ''assetnum'' []"

text \<open>Filters with two predicates: two relations; one relation twice; one relation in two spellings.\<close>

definition twoRelationsWhere :: string where
  \<open>twoRelationsWhere = ''asset.assettype="PUMP" and location.type="STORE"''\<close>

definition twoClausesWhere :: string where
  \<open>twoClausesWhere = ''asset.assettype="PUMP" and asset.assettype="SENSOR"''\<close>

definition caseVariantWhere :: string where
  \<open>caseVariantWhere = ''Asset.assettype="PUMP" and asset.assettype="SENSOR"''\<close>

text \<open>A value with a double quote that ends in a backslash.\<close>

definition inchValue :: string where
  \<open>inchValue = ''6"'' @ [backslash]\<close>

text \<open>An override file that defines one relation of \<^verbatim>\<open>mxapiwo\<close>, \<^verbatim>\<open>asset\<close>.\<close>

definition assetOnlyLayer :: relationships where
  "assetOnlyLayer =
     map_of [(''mxapiwo'', map_of [(''asset'', builtInEntry ''mxapiasset'' ''assetid'')])]"

text \<open>A tenant file that bounds the keys of \<^verbatim>\<open>mxapiwo.asset\<close> by 1.\<close>

definition oneKeyLayer :: relationships where
  "oneKeyLayer =
     map_of [(''mxapiwo'',
        map_of [(''asset'', (builtInEntry ''mxapiasset'' ''assetnum'')\<lparr>maxKeys := 1\<rparr>),
                (''location'', builtInEntry ''mxapilocations'' ''location'')])]"

section \<open>Lemmas\<close>

subsection \<open>The loop\<close>

lemma processPredicate_bag: "bag (processPredicate c a r p st) = bag st"
  by (simp add: processPredicate_def Let_def split: option.splits prod.splits sum.splits)

lemma processPredicates_bag: "bag (processPredicates c a r ps st) = bag st"
  by (induction ps arbitrary: st) (simp_all add: processPredicate_bag)

lemma processPredicate_skip:
  "usableCfg r (rel p) = None \<Longrightarrow> processPredicate c a r p st = st"
  by (simp add: processPredicate_def)

lemma processPredicate_throw:
  assumes "usableCfg r (rel p) = Some relCfg"
    and "maximoFetch c (world st) (bag st) (predicateRequest c a relCfg p) = (Inl msg, w')"
  shows "processPredicate c a r p st =
     st\<lparr>lplan := (lplan st)\<lparr>mode := ''prefetch'',
             steps := steps (lplan st) @ [prefetchStep c relCfg p],
             errors := errors (lplan st) @ [(Some (rel p), msg)]\<rparr>,
        world := w'\<rparr>"
  using assms
  by (simp add: processPredicate_def Let_def prefetchKeys_def predicateRequest_def
      prefetchStep_def cfgSelect_def)

lemma processPredicate_keys:
  assumes "usableCfg r (rel p) = Some relCfg"
    and "maximoFetch c (world st) (bag st) (predicateRequest c a relCfg p) = (Inr r2, w')"
  shows "processPredicate c a r p st =
     st\<lparr>lplan := (lplan st)\<lparr>mode := ''prefetch'',
             steps := steps (lplan st) @ [prefetchStep c relCfg p,
               PrefetchResult (rel p) (length (resolvedKeys c relCfg r2))
                 (length (usedKeys c relCfg r2)),
               if usedKeys c relCfg r2 = []
               then Rewrite (rel p) (falseClause (trim (rootJoinField relCfg)))
                      (Some ''no related matches'')
               else Rewrite (rel p)
                      (buildOrBlock (trim (rootJoinField relCfg)) (usedKeys c relCfg r2)) None],
             truncated := (truncated (lplan st)
                \<or> length (usedKeys c relCfg r2) < length (resolvedKeys c relCfg r2))\<rparr>,
        mutatedWhere :=
          replaceClause (rel p) (field p)
            (if usedKeys c relCfg r2 = [] then falseClause (trim (rootJoinField relCfg))
             else buildOrBlock (trim (rootJoinField relCfg)) (usedKeys c relCfg r2))
            (mutatedWhere st),
        world := w'\<rparr>"
  using assms
  by (simp add: processPredicate_def Let_def prefetchKeys_def predicateRequest_def
      prefetchStep_def cfgSelect_def resolvedKeys_def usedKeys_def)

subsection \<open>Replacements without a dollar sign\<close>

lemma getSubstitution_plain:
  "dollar \<notin> set t \<Longrightarrow> getSubstitution m b a caps t = t"
  by (induction m b a caps t rule: getSubstitution.induct) auto

lemma escape_no_dollar: "dollar \<notin> set k \<Longrightarrow> dollar \<notin> set (escapeWhereString k)"
  by (induction k) (auto simp: dollar_def dquote_def backslash_def)

lemma join_no_dollar:
  "\<forall>x\<in>set xs. dollar \<notin> set x \<Longrightarrow> dollar \<notin> set sep \<Longrightarrow> dollar \<notin> set (join sep xs)"
  by (induction sep xs rule: join.induct) auto

lemma buildOrBlock_no_dollar:
  assumes "dollar \<notin> set rjf" "\<forall>k\<in>set ks. dollar \<notin> set k"
  shows "dollar \<notin> set (buildOrBlock rjf ks)"
proof -
  have "\<forall>x\<in>set (map (eqClause rjf) ks). dollar \<notin> set x"
    using assms by (auto simp: eqClause_def escape_no_dollar) (simp_all add: dollar_def dquote_def)
  then have "dollar \<notin> set (join '' or '' (map (eqClause rjf) ks))"
    by (rule join_no_dollar) (simp add: dollar_def)
  then show ?thesis
    by (simp add: buildOrBlock_def dollar_def)
qed

lemma falseClause_no_dollar: "dollar \<notin> set rjf \<Longrightarrow> dollar \<notin> set (falseClause rjf)"
  by (simp add: falseClause_def dollar_def dquote_def)

subsection \<open>The leftmost match splits the filter\<close>

lemma match_ci_suffix: "match_ci p s = Some r \<Longrightarrow> suffix r s"
  by (induction p s rule: match_ci.induct) (auto split: if_splits intro: suffix_ConsI)

lemma match_op_suffix: "match_op prev s = Some (t, r) \<Longrightarrow> suffix r s"
  by (auto simp: match_op_def suffix_drop split: if_splits option.splits dest: match_ci_suffix)

lemma match_literal_suffix:
  assumes "match_literal s = Some (lit, inner, r)"
  shows "suffix r s"
proof -
  from assms obtain q t where s: "s = q # t" and r: "r = tl (dropWhile (\<lambda>c. c \<noteq> q) t)"
    by (auto simp: match_literal_def split: list.splits if_splits)
  have "suffix (tl (dropWhile (\<lambda>c. c \<noteq> q) t)) (dropWhile (\<lambda>c. c \<noteq> q) t)"
    by (rule suffix_tl)
  moreover have "suffix (dropWhile (\<lambda>c. c \<noteq> q) t) t"
    by (rule suffix_dropWhile)
  ultimately have "suffix r t"
    using r suffix_order.trans by blast
  then show "suffix r s"
    using s by (simp add: suffix_ConsI)
qed

lemma clause_at_suffix:
  assumes "clause_at rn f prev s = Some (o1, lit, rest)"
  shows "suffix rest s"
proof -
  from assms obtain s1 s3 s5 s7 inner where
    a: "match_ci rn s = Some s1"
    and b: "dropWhile is_space s1 = CHR ''.'' # s3"
    and c: "match_ci f (dropWhile is_space s3) = Some s5"
    and d: "match_op (prev_of prev s (dropWhile is_space s5)) (dropWhile is_space s5) = Some (o1, s7)"
    and e: "match_literal (dropWhile is_space s7) = Some (lit, inner, rest)"
    by (auto simp: clause_at_def Let_def split: if_splits option.splits list.splits)
  have "suffix s1 s" by (rule match_ci_suffix [OF a])
  moreover have "suffix s3 s1"
    using suffix_dropWhile [of is_space s1] b by (simp add: suffix_ConsD)
  moreover have "suffix s5 s3"
    using match_ci_suffix [OF c] suffix_dropWhile [of is_space s3] suffix_order.trans by blast
  moreover have "suffix s7 s5"
    using match_op_suffix [OF d] suffix_dropWhile [of is_space s5] suffix_order.trans by blast
  moreover have "suffix rest s7"
    using match_literal_suffix [OF e] suffix_dropWhile [of is_space s7] suffix_order.trans by blast
  ultimately show ?thesis
    using suffix_order.trans by blast
qed

lemma suffix_take_append: "suffix r s \<Longrightarrow> take (length s - length r) s @ r = s"
  by (auto simp: suffix_def)

lemma find_clause_split:
  "find_clause rn f prev w = Some (b, m, caps, post) \<Longrightarrow> w = b @ m @ post"
proof (induction rn f prev w arbitrary: b rule: find_clause.induct)
  case (1 rn f prev)
  then show ?case by simp
next
  case (2 rn f prev c cs)
  show ?case
  proof (cases "clause_at rn f prev (c # cs)")
    case None
    with "2.prems" obtain b' where
      "find_clause rn f (Some c) cs = Some (b', m, caps, post)" and "b = c # b'"
      by (auto split: option.splits)
    with "2.IH" [OF None] show ?thesis by simp
  next
    case (Some t)
    obtain o1 lit rest where t: "t = (o1, lit, rest)" by (cases t)
    from Some t "2.prems" have
      eq: "b = []" "m = take (length (c # cs) - length rest) (c # cs)" "post = rest"
      by auto
    have "suffix rest (c # cs)"
      using clause_at_suffix Some t by blast
    from suffix_take_append [OF this] eq show ?thesis by simp
  qed
qed

lemma replaceClause_plain:
  assumes "find_clause rn f None w = Some (b, m, caps, post)" and "dollar \<notin> set t"
  shows "replaceClause rn f t w = b @ t @ post"
  using assms by (simp add: replaceClause_def getSubstitution_plain)

subsection \<open>The operators of detected predicates\<close>

lemma normalizeOp_cases:
  "normalizeOp x = ''='' \<or> normalizeOp x = ''!='' \<or> normalizeOp x = ''like''"
  by (simp add: normalizeOp_def Let_def)

lemma detect_at_op:
  assumes "detect_at prev s = Some (p, rest)"
  shows "op p = ''='' \<or> op p = ''!='' \<or> op p = ''like''"
proof -
  from assms obtain x where "op p = normalizeOp x"
    by (auto simp: detect_at_def Let_def split: if_splits list.splits option.splits)
  then show ?thesis
    using normalizeOp_cases [of x] by simp
qed

lemma detect_from_op:
  "p \<in> set (detect_from prev s) \<Longrightarrow> op p = ''='' \<or> op p = ''!='' \<or> op p = ''like''"
proof (induction prev s rule: detect_from.induct)
  case (1 prev)
  then show ?case by simp
next
  case (2 prev c cs)
  show ?case
  proof (cases "detect_at prev (c # cs)")
    case None
    with 2 show ?thesis by simp
  next
    case (Some t)
    obtain q rest where t: "t = (q, rest)" by (cases t)
    from "2.prems" Some t have "p = q \<or> p \<in> set (detect_from (prev_of prev (c # cs) rest) rest)"
      by simp
    then show ?thesis
    proof
      assume "p = q"
      then show ?thesis
        using detect_at_op [of prev "c # cs" q rest] Some t by simp
    next
      assume "p \<in> set (detect_from (prev_of prev (c # cs) rest) rest)"
      then show ?thesis
        using "2.IH"(2) [OF Some [unfolded t] refl] by simp
    qed
  qed
qed

subsection \<open>Escaped values without a backslash read back\<close>

lemma scanLiteral_escape:
  "backslash \<notin> set v \<Longrightarrow> scanLiteral (escapeWhereString v @ dquote # rest) = Some (v, rest)"
  by (induction v) (auto simp: dquote_def backslash_def)

section \<open>The configuration store\<close>

text \<open>
  C1, as stated, fails. The claim lets a layer that does not define a relation alias keep
  the earlier layer's entry for it. With an override file that defines only
  \<^verbatim>\<open>mxapiwo.asset\<close>, the built-in entry \<^verbatim>\<open>mxapiwo.location\<close> is not defined by the
  file and yet is gone from the merged configuration: the spread replaces the whole
  \<^verbatim>\<open>mxapiwo\<close> object.
\<close>

theorem merge_relation_key_counterexample:
  "relEntry (layerRoot (Some assetOnlyLayer) ''mxapiwo'') ''location'' = None
   \<and> relEntry (builtIn ''mxapiwo'') ''location''
       = Some (builtInEntry ''mxapilocations'' ''location'')
   \<and> relEntry (loadRelationshipsConfig (Some assetOnlyLayer) None ''mxapiwo'') ''location''
       = None"
  by (simp add: relEntry_def layerRoot_def assetOnlyLayer_def builtIn_def
      loadRelationshipsConfig_def spread_def map_add_def)

text \<open>
  C1, amended: the three layers are merged at the granularity of the root resource. For
  every root resource, the merged configuration holds the whole relation mapping of the
  last layer (built-in, then the tenant-agnostic file, then the tenant file) that defines
  that root resource; a layer that does not define the root resource leaves the earlier
  mapping in place.
\<close>

theorem merge_by_root_resource:
  "loadRelationshipsConfig defaults tenant os =
     (case layerRoot tenant os of
        Some rels \<Rightarrow> Some rels
      | None \<Rightarrow> (case layerRoot defaults os of Some rels \<Rightarrow> Some rels | None \<Rightarrow> builtIn os))"
  by (simp add: loadRelationshipsConfig_def spread_def layerRoot_def map_add_def
      split: option.splits)

theorem merge_by_root_resource_witness:
  "loadRelationshipsConfig (Some assetOnlyLayer) None ''mxapiwo''
     = Some (map_of [(''asset'', builtInEntry ''mxapiasset'' ''assetid'')])
   \<and> loadRelationshipsConfig (Some assetOnlyLayer) None ''mxapisr'' = builtIn ''mxapisr''"
  using merge_by_root_resource [of "Some assetOnlyLayer" None "''mxapiwo''"]
    merge_by_root_resource [of "Some assetOnlyLayer" None "''mxapisr''"]
  by (simp add: layerRoot_def assetOnlyLayer_def)

section \<open>Failures of a prefetch\<close>

text \<open>
  C2, as stated, fails. The claim puts an \<^verbatim>\<open>error\<close> step into the plan's step list.
  When the transport throws for the one predicate of the filter, the step list holds the
  \<^verbatim>\<open>prefetch\<close> announcement and nothing else; the failure is an entry of the plan's
  error list. No step of kind \<^verbatim>\<open>error\<close> exists.
\<close>

theorem error_step_counterexample:
  "map kind (steps (planOf (sampleCollab None None) ''mxapiwo'' (sampleParams sensorWhere)
       [Inl ''ECONNRESET''])) = [''prefetch'']
   \<and> errors (planOf (sampleCollab None None) ''mxapiwo'' (sampleParams sensorWhere)
       [Inl ''ECONNRESET'']) = [(Some ''asset'', ''ECONNRESET'')]"
  by code_simp

text \<open>
  C2, amended: for every predicate with a usable configuration entry whose prefetch
  throws, the planner catches the failure for that predicate alone: the mode becomes
  \<^verbatim>\<open>prefetch\<close>, the step list receives the \<^verbatim>\<open>prefetch\<close> announcement and no
  further step, the error list receives the entry (relationship, message), that iteration
  leaves the filter and the truncated flag as they are, and the loop goes on with the
  remaining predicates from that state. The call returns a plan in every case: exceptions are values of the
  model and \<open>applyRelationshipPrefetch\<close> has no exceptional result.
\<close>

theorem prefetch_failure_recorded:
  assumes "usableCfg r (rel p) = Some relCfg"
    and "maximoFetch c (world st) (bag st) (predicateRequest c a relCfg p) = (Inl msg, w')"
  shows "processPredicates c a r (p # ps) st =
     processPredicates c a r ps
       (st\<lparr>lplan := (lplan st)\<lparr>mode := ''prefetch'',
               steps := steps (lplan st) @ [prefetchStep c relCfg p],
               errors := errors (lplan st) @ [(Some (rel p), msg)]\<rparr>,
          world := w'\<rparr>)"
  using processPredicate_throw [OF assms] by simp

theorem prefetch_failure_recorded_witness:
  "usableCfg (builtIn ''mxapiwo'') (rel sensorPredicate) = Some assetCfg
   \<and> maximoFetch (sampleCollab None None) (world (sampleState sensorWhere [Inl ''ECONNRESET'']))
        (bag (sampleState sensorWhere [Inl ''ECONNRESET'']))
        (predicateRequest (sampleCollab None None) ''https://host'' assetCfg sensorPredicate)
       = (Inl ''ECONNRESET'', [])
   \<and> processPredicates (sampleCollab None None) ''https://host'' (builtIn ''mxapiwo'')
        [sensorPredicate] (sampleState sensorWhere [Inl ''ECONNRESET''])
     = (sampleState sensorWhere [Inl ''ECONNRESET''])
          \<lparr>lplan := (lplan (sampleState sensorWhere [Inl ''ECONNRESET'']))
             \<lparr>mode := ''prefetch'',
              steps := [prefetchStep (sampleCollab None None) assetCfg sensorPredicate],
              errors := [(Some ''asset'', ''ECONNRESET'')]\<rparr>,
            world := []\<rparr>"
proof -
  let ?st = "sampleState sensorWhere [Inl ''ECONNRESET'']"
  have h1: "usableCfg (builtIn ''mxapiwo'') (rel sensorPredicate) = Some assetCfg"
    by code_simp
  have h2: "maximoFetch (sampleCollab None None) (world ?st) (bag ?st)
        (predicateRequest (sampleCollab None None) ''https://host'' assetCfg sensorPredicate)
       = (Inl ''ECONNRESET'', [])"
    by (simp add: sampleCollab_def scripted_def sampleState_def loopStart_def)
  have h3: "steps (lplan ?st) = []" "errors (lplan ?st) = []" "rel sensorPredicate = ''asset''"
    by (simp_all add: sampleState_def loopStart_def emptyPlan_def sensorPredicate_def)
  show ?thesis
    using prefetch_failure_recorded [OF h1 h2, of "[]"] h1 h2 by (simp add: h3)
qed

section \<open>The rewritten disjunction\<close>

text \<open>
  C3, as stated, fails. The claim gives every predicate with at most \<^verbatim>\<open>maxKeys\<close>
  keys an unset truncated flag. The flag belongs to the plan, not to a predicate: with a
  tenant file that bounds \<^verbatim>\<open>asset\<close> by one key, the \<^verbatim>\<open>asset\<close> predicate of the
  filter gets two keys and sets the flag, and the \<^verbatim>\<open>location\<close> predicate, with one key
  against a bound of 50, finds it set and leaves it set.
\<close>

theorem truncated_flag_counterexample:
  "effectiveMaxKeys (builtInEntry ''mxapilocations'' ''location'') None = 50
   \<and> PrefetchResult ''location'' 1 1 \<in> set (steps (planOf (sampleCollab None (Some oneKeyLayer))
        ''mxapiwo'' (sampleParams twoRelationsWhere)
        [Inr (membersOf ''assetnum'' [''A100'', ''A101'']), Inr (membersOf ''location'' [''L1''])]))
   \<and> truncated (planOf (sampleCollab None (Some oneKeyLayer))
        ''mxapiwo'' (sampleParams twoRelationsWhere)
        [Inr (membersOf ''assetnum'' [''A100'', ''A101'']), Inr (membersOf ''location'' [''L1''])])"
  by code_simp

text \<open>
  C3, amended: for every predicate with a usable configuration entry and a positive
  \<^verbatim>\<open>maxKeys\<close> whose resolver returns a non-empty key list of size k, where neither the
  root join field nor a key contains a dollar sign and the predicate's clause is the
  leftmost occurrence \<open>m\<close> of its pattern in the current filter \<open>b @ m @ post\<close>: the
  clause is replaced by the parenthesized disjunction of exactly min(k, maxKeys) equality
  clauses on the root join field, one for each of the first min(k, maxKeys) keys in
  returned order, each value the escaped key; and the plan's truncated flag afterwards is
  set if k exceeds \<^verbatim>\<open>maxKeys\<close> and otherwise is what the earlier predicates left.
\<close>

theorem disjunction_rewrite:
  assumes "usableCfg r (rel p) = Some relCfg"
    and "maximoFetch c (world st) (bag st) (predicateRequest c a relCfg p) = (Inr r2, w')"
    and "resolvedKeys c relCfg r2 \<noteq> []"
    and "0 < effectiveMaxKeys relCfg (envMaxPrefetchKeys c)"
    and "dollar \<notin> set (trim (rootJoinField relCfg))"
    and "\<forall>k\<in>set (resolvedKeys c relCfg r2). dollar \<notin> set k"
    and "find_clause (rel p) (field p) None (mutatedWhere st) = Some (b, m, caps, post)"
  shows "mutatedWhere st = b @ m @ post
    \<and> mutatedWhere (processPredicate c a r p st) =
        b @ ''('' @ join '' or '' (map (eqClause (trim (rootJoinField relCfg)))
               (take (nat (effectiveMaxKeys relCfg (envMaxPrefetchKeys c)))
                  (resolvedKeys c relCfg r2))) @ '')'' @ post
    \<and> length (map (eqClause (trim (rootJoinField relCfg)))
               (take (nat (effectiveMaxKeys relCfg (envMaxPrefetchKeys c)))
                  (resolvedKeys c relCfg r2)))
        = min (length (resolvedKeys c relCfg r2))
            (nat (effectiveMaxKeys relCfg (envMaxPrefetchKeys c)))
    \<and> truncated (lplan (processPredicate c a r p st)) =
        (truncated (lplan st)
         \<or> nat (effectiveMaxKeys relCfg (envMaxPrefetchKeys c)) < length (resolvedKeys c relCfg r2))"
proof -
  let ?mk = "effectiveMaxKeys relCfg (envMaxPrefetchKeys c)"
  let ?ks = "resolvedKeys c relCfg r2"
  let ?rjf = "trim (rootJoinField relCfg)"
  have used: "usedKeys c relCfg r2 = take (nat ?mk) ?ks"
    using assms(4) by (simp add: usedKeys_def)
  have ne: "usedKeys c relCfg r2 \<noteq> []"
    using used assms(3,4) by simp
  have "\<forall>k\<in>set (take (nat ?mk) ?ks). dollar \<notin> set k"
    using assms(6) by (meson in_set_takeD)
  then have nd: "dollar \<notin> set (buildOrBlock ?rjf (take (nat ?mk) ?ks))"
    using buildOrBlock_no_dollar assms(5) by blast
  have step: "mutatedWhere (processPredicate c a r p st) =
      replaceClause (rel p) (field p) (buildOrBlock ?rjf (take (nat ?mk) ?ks)) (mutatedWhere st)"
    using ne used by (simp add: processPredicate_keys [OF assms(1,2)])
  have trunc: "truncated (lplan (processPredicate c a r p st)) =
      (truncated (lplan st) \<or> length (take (nat ?mk) ?ks) < length ?ks)"
    using used by (simp add: processPredicate_keys [OF assms(1,2)])
  show ?thesis
  proof (intro conjI)
    show "mutatedWhere st = b @ m @ post"
      by (rule find_clause_split [OF assms(7)])
    show "mutatedWhere (processPredicate c a r p st) =
        b @ ''('' @ join '' or '' (map (eqClause ?rjf) (take (nat ?mk) ?ks)) @ '')'' @ post"
      using step replaceClause_plain [OF assms(7) nd] by (simp add: buildOrBlock_def)
    show "length (map (eqClause ?rjf) (take (nat ?mk) ?ks)) = min (length ?ks) (nat ?mk)"
      by simp
    show "truncated (lplan (processPredicate c a r p st)) =
        (truncated (lplan st) \<or> nat ?mk < length ?ks)"
      using trunc by auto
  qed
qed

theorem disjunction_rewrite_witness:
  \<open>usableCfg (builtIn ''mxapiwo'') (rel sensorPredicate) = Some assetCfg
   \<and> maximoFetch (sampleCollab None None) (world (sampleState sensorWhere [Inr twoKeys]))
        (bag (sampleState sensorWhere [Inr twoKeys]))
        (predicateRequest (sampleCollab None None) ''https://host'' assetCfg sensorPredicate)
       = (Inr twoKeys, [])
   \<and> resolvedKeys (sampleCollab None None) assetCfg twoKeys = [''A100'', ''A101'']
   \<and> effectiveMaxKeys assetCfg (envMaxPrefetchKeys (sampleCollab None None)) = 50
   \<and> dollar \<notin> set (trim (rootJoinField assetCfg))
   \<and> list_all (\<lambda>k. dollar \<notin> set k) (resolvedKeys (sampleCollab None None) assetCfg twoKeys)
   \<and> find_clause (rel sensorPredicate) (field sensorPredicate) None
        (mutatedWhere (sampleState sensorWhere [Inr twoKeys]))
       = Some ([], ''asset.assettype="SENSOR"'', [''='', ''"SENSOR"''], [])
   \<and> mutatedWhere (processPredicate (sampleCollab None None) ''https://host'' (builtIn ''mxapiwo'')
        sensorPredicate (sampleState sensorWhere [Inr twoKeys]))
       = ''(assetnum="A100" or assetnum="A101")''
   \<and> \<not> truncated (lplan (processPredicate (sampleCollab None None) ''https://host''
        (builtIn ''mxapiwo'') sensorPredicate (sampleState sensorWhere [Inr twoKeys])))\<close>
proof -
  let ?c = "sampleCollab None None"
  let ?st = "sampleState sensorWhere [Inr twoKeys]"
  have h1: "usableCfg (builtIn ''mxapiwo'') (rel sensorPredicate) = Some assetCfg"
    by code_simp
  have h2: "maximoFetch ?c (world ?st) (bag ?st)
        (predicateRequest ?c ''https://host'' assetCfg sensorPredicate) = (Inr twoKeys, [])"
    by (simp add: sampleCollab_def scripted_def sampleState_def loopStart_def)
  have h3: "resolvedKeys ?c assetCfg twoKeys = [''A100'', ''A101'']"
    by code_simp
  have h4: "effectiveMaxKeys assetCfg (envMaxPrefetchKeys ?c) = 50"
    by code_simp
  have h5: "dollar \<notin> set (trim (rootJoinField assetCfg))"
    by code_simp
  have h6': "list_all (\<lambda>k. dollar \<notin> set k) (resolvedKeys ?c assetCfg twoKeys)"
    by code_simp
  have h6: "\<forall>k\<in>set (resolvedKeys ?c assetCfg twoKeys). dollar \<notin> set k"
    using h6' by (simp add: list_all_iff)
  have h7: \<open>find_clause (rel sensorPredicate) (field sensorPredicate) None (mutatedWhere ?st)
       = Some ([], ''asset.assettype="SENSOR"'', [''='', ''"SENSOR"''], [])\<close>
    by code_simp
  have h3': "resolvedKeys ?c assetCfg twoKeys \<noteq> []"
    by (simp add: h3)
  have h4': "0 < effectiveMaxKeys assetCfg (envMaxPrefetchKeys ?c)"
    by (simp add: h4)
  have e: \<open>[] @ ''('' @ join '' or '' (map (eqClause (trim (rootJoinField assetCfg)))
               (take (nat 50) [''A100'', ''A101''])) @ '')'' @ []
      = ''(assetnum="A100" or assetnum="A101")''\<close>
    by code_simp
  have t0: "\<not> truncated (lplan ?st)"
    by (simp add: sampleState_def loopStart_def emptyPlan_def)
  note r = disjunction_rewrite [OF h1 h2 h3' h4' h5 h6 h7, unfolded h3 h4]
  have r1: \<open>mutatedWhere (processPredicate ?c ''https://host'' (builtIn ''mxapiwo'')
        sensorPredicate ?st) = ''(assetnum="A100" or assetnum="A101")''\<close>
    using r e by simp
  have r2: "\<not> truncated (lplan (processPredicate ?c ''https://host''
        (builtIn ''mxapiwo'') sensorPredicate ?st))"
    using r t0 by simp
  show ?thesis
    by (intro conjI h1 h2 h3 h4 h5 h6' h7 r1 r2)
qed

section \<open>The sentinel clause\<close>

text \<open>
  C4: for a predicate whose resolver returns no key, the sentinel clause replaces that
  predicate's clause. The code does not keep to this. The replacement goes to the
  leftmost text that matches a pattern built from the relation and the field alone. With
  two \<^verbatim>\<open>asset.assettype\<close> clauses, a prefetch that throws for the first predicate
  and returns no key for the second, the sentinel takes the place of the first clause,
  and the clause of the second predicate, the one resolved to no key, stays in the
  filter.
\<close>

theorem sentinel_replaces_other_clause:
  \<open>detected (planOf (sampleCollab None None) ''mxapiwo'' (sampleParams twoClausesWhere)
        [Inl ''timeout'', Inr (membersOf ''assetnum'' [])])
     = [\<lparr>rel = ''asset'', field = ''assettype'', op = ''='', value = ''PUMP''\<rparr>,
        \<lparr>rel = ''asset'', field = ''assettype'', op = ''='', value = ''SENSOR''\<rparr>]
   \<and> errors (planOf (sampleCollab None None) ''mxapiwo'' (sampleParams twoClausesWhere)
        [Inl ''timeout'', Inr (membersOf ''assetnum'' [])]) = [(Some ''asset'', ''timeout'')]
   \<and> PrefetchResult ''asset'' 0 0 \<in> set (steps (planOf (sampleCollab None None) ''mxapiwo''
        (sampleParams twoClausesWhere) [Inl ''timeout'', Inr (membersOf ''assetnum'' [])]))
   \<and> paramsAfter (sampleCollab None None) ''mxapiwo'' (sampleParams twoClausesWhere)
        [Inl ''timeout'', Inr (membersOf ''assetnum'' [])] ''oslc.where''
     = Some ''assetnum="__NO_MATCH__" and asset.assettype="SENSOR"''\<close>
  by code_simp

text \<open>
  What one iteration does with an empty key list: when the root join field contains no
  dollar sign and the clause pattern occurs in the current filter, the leftmost
  occurrence of the pattern becomes \<^verbatim>\<open><rootJoinField>="__NO_MATCH__"\<close> and the text
  before and after it is kept.
\<close>

lemma sentinel_rewrite:
  assumes "usableCfg r (rel p) = Some relCfg"
    and "maximoFetch c (world st) (bag st) (predicateRequest c a relCfg p) = (Inr r2, w')"
    and "resolvedKeys c relCfg r2 = []"
    and "dollar \<notin> set (trim (rootJoinField relCfg))"
    and "find_clause (rel p) (field p) None (mutatedWhere st) = Some (b, m, caps, post)"
  shows "mutatedWhere st = b @ m @ post
    \<and> mutatedWhere (processPredicate c a r p st) =
        b @ trim (rootJoinField relCfg) @ ''='' @ [dquote] @ ''__NO_MATCH__'' @ [dquote] @ post"
proof -
  have used: "usedKeys c relCfg r2 = []"
    using assms(3) by (simp add: usedKeys_def)
  have "mutatedWhere (processPredicate c a r p st) =
      replaceClause (rel p) (field p) (falseClause (trim (rootJoinField relCfg))) (mutatedWhere st)"
    using used by (simp add: processPredicate_keys [OF assms(1,2)])
  then have "mutatedWhere (processPredicate c a r p st) =
      b @ falseClause (trim (rootJoinField relCfg)) @ post"
    using replaceClause_plain [OF assms(5) falseClause_no_dollar [OF assms(4)]] by simp
  then show ?thesis
    using find_clause_split [OF assms(5)] by (simp add: falseClause_def)
qed

lemma sentinel_rewrite_example:
  \<open>usableCfg (builtIn ''mxapiwo'') (rel sensorPredicate) = Some assetCfg
   \<and> maximoFetch (sampleCollab None None) (world (sampleState sensorWhere [Inr noKeys]))
        (bag (sampleState sensorWhere [Inr noKeys]))
        (predicateRequest (sampleCollab None None) ''https://host'' assetCfg sensorPredicate)
       = (Inr noKeys, [])
   \<and> resolvedKeys (sampleCollab None None) assetCfg noKeys = []
   \<and> dollar \<notin> set (trim (rootJoinField assetCfg))
   \<and> find_clause (rel sensorPredicate) (field sensorPredicate) None
        (mutatedWhere (sampleState sensorWhere [Inr noKeys]))
       = Some ([], ''asset.assettype="SENSOR"'', [''='', ''"SENSOR"''], [])
   \<and> mutatedWhere (processPredicate (sampleCollab None None) ''https://host'' (builtIn ''mxapiwo'')
        sensorPredicate (sampleState sensorWhere [Inr noKeys]))
       = ''assetnum="__NO_MATCH__"''\<close>
proof -
  let ?c = "sampleCollab None None"
  let ?st = "sampleState sensorWhere [Inr noKeys]"
  have h1: "usableCfg (builtIn ''mxapiwo'') (rel sensorPredicate) = Some assetCfg"
    by code_simp
  have h2: "maximoFetch ?c (world ?st) (bag ?st)
        (predicateRequest ?c ''https://host'' assetCfg sensorPredicate) = (Inr noKeys, [])"
    by (simp add: sampleCollab_def scripted_def sampleState_def loopStart_def)
  have h3: "resolvedKeys ?c assetCfg noKeys = []"
    by code_simp
  have h4: "dollar \<notin> set (trim (rootJoinField assetCfg))"
    by code_simp
  have h5: \<open>find_clause (rel sensorPredicate) (field sensorPredicate) None (mutatedWhere ?st)
       = Some ([], ''asset.assettype="SENSOR"'', [''='', ''"SENSOR"''], [])\<close>
    by code_simp
  have e: \<open>[] @ trim (rootJoinField assetCfg) @ ''='' @ [dquote] @ ''__NO_MATCH__'' @ [dquote] @ []
      = ''assetnum="__NO_MATCH__"''\<close>
    by code_simp
  have r1: \<open>mutatedWhere (processPredicate ?c ''https://host'' (builtIn ''mxapiwo'')
        sensorPredicate ?st) = ''assetnum="__NO_MATCH__"''\<close>
    using sentinel_rewrite [OF h1 h2 h3 h4 h5] e by simp
  show ?thesis
    by (intro conjI h1 h2 h3 h4 h5 r1)
qed

section \<open>Predicates without a configuration entry\<close>

text \<open>
  C5: a clause whose relation alias has no configuration entry passes through unchanged
  and gets no plan step. The code does not keep to this. The filter below names the
  relation once as \<^verbatim>\<open>Asset\<close>, which has no entry (the lookup is by the exact key), and
  once as \<^verbatim>\<open>asset\<close>, which has one. The pattern built for the second predicate is
  matched without regard to case and from the left, so the keys resolved for the second
  predicate replace the clause of the first: the clause without a configuration entry is
  rewritten. No step is recorded under the alias \<^verbatim>\<open>Asset\<close>.
\<close>

theorem unconfigured_clause_rewritten:
  \<open>relEntry (relsForOs (loadRelationshipsConfig None None) ''mxapiwo'') ''Asset'' = None
   \<and> detected (planOf (sampleCollab None None) ''mxapiwo'' (sampleParams caseVariantWhere)
        [Inr (membersOf ''assetnum'' [''A100''])])
     = [\<lparr>rel = ''Asset'', field = ''assettype'', op = ''='', value = ''PUMP''\<rparr>,
        \<lparr>rel = ''asset'', field = ''assettype'', op = ''='', value = ''SENSOR''\<rparr>]
   \<and> map relationship (steps (planOf (sampleCollab None None) ''mxapiwo''
        (sampleParams caseVariantWhere) [Inr (membersOf ''assetnum'' [''A100''])]))
     = [''asset'', ''asset'', ''asset'']
   \<and> paramsAfter (sampleCollab None None) ''mxapiwo'' (sampleParams caseVariantWhere)
        [Inr (membersOf ''assetnum'' [''A100''])] ''oslc.where''
     = Some ''(assetnum="A100") and asset.assettype="SENSOR"''\<close>
  by code_simp

section \<open>The parameter bag\<close>

text \<open>
  C6: the parameter bag is written at most once, behind the loop. At every point of the
  loop (after any number of predicates, for any API base) the bag is the one the caller
  passed, so no partial filter is visible through it; the bag returned is either the
  caller's bag or the caller's bag with \<^verbatim>\<open>oslc.where\<close> set to the filter as it is when
  all detected predicates have been processed; every other parameter is as the caller
  passed it.
\<close>

theorem bag_written_once:
  "(\<forall>apiBase n. bag (stateAfter c os ps w apiBase n) = ps)
   \<and> (paramsAfter c os ps w = ps
      \<or> (\<exists>apiBase. maximoApiBase c = Inr apiBase
           \<and> paramsAfter c os ps w =
               ps(''oslc.where'' \<mapsto> mutatedWhere
                    (stateAfter c os ps w apiBase
                       (length (detectRelationshipPredicates (whereOf ps)))))))
   \<and> (\<forall>k. k \<noteq> ''oslc.where'' \<longrightarrow> paramsAfter c os ps w k = ps k)"
proof (intro conjI allI impI)
  fix apiBase n
  show "bag (stateAfter c os ps w apiBase n) = ps"
    by (simp add: stateAfter_def processPredicates_bag loopStart_def)
next
  show "paramsAfter c os ps w = ps
      \<or> (\<exists>apiBase. maximoApiBase c = Inr apiBase
           \<and> paramsAfter c os ps w =
               ps(''oslc.where'' \<mapsto> mutatedWhere
                    (stateAfter c os ps w apiBase
                       (length (detectRelationshipPredicates (whereOf ps))))))"
    by (cases "maximoApiBase c")
      (simp_all add: paramsAfter_def applyRelationshipPrefetch_def Let_def stateAfter_def
        processPredicates_bag loopStart_def)
next
  fix k :: string
  assume "k \<noteq> ''oslc.where''"
  then show "paramsAfter c os ps w k = ps k"
    by (cases "maximoApiBase c")
      (simp_all add: paramsAfter_def applyRelationshipPrefetch_def Let_def
        processPredicates_bag loopStart_def)
qed

theorem bag_written_once_witness:
  \<open>bag (stateAfter (sampleCollab None None) ''mxapiwo'' (sampleParams sensorWhere)
        [Inr twoKeys] ''https://host/maximo/api'' 1)
     = sampleParams sensorWhere
   \<and> ''oslc.select'' \<noteq> ''oslc.where''
   \<and> paramsAfter (sampleCollab None None) ''mxapiwo'' (sampleParams sensorWhere)
        [Inr twoKeys] ''oslc.select'' = Some ''wonum''
   \<and> paramsAfter (sampleCollab None None) ''mxapiwo'' (sampleParams sensorWhere)
        [Inr twoKeys] ''oslc.where''
       = Some ''(assetnum="A100" or assetnum="A101")''\<close>
proof -
  let ?c = "sampleCollab None None"
  let ?ps = "sampleParams sensorWhere"
  let ?w = "[Inr twoKeys]"
  note r = bag_written_once [of ?c "''mxapiwo''" ?ps ?w]
  have a: "bag (stateAfter ?c ''mxapiwo'' ?ps ?w ''https://host/maximo/api'' 1) = ?ps"
    by (rule r [THEN conjunct1, THEN spec, THEN spec])
  have n: "''oslc.select'' \<noteq> ''oslc.where''"
    by simp
  have "paramsAfter ?c ''mxapiwo'' ?ps ?w ''oslc.select'' = ?ps ''oslc.select''"
    by (rule r [THEN conjunct2, THEN conjunct2, THEN spec, THEN mp, OF n])
  then have b: "paramsAfter ?c ''mxapiwo'' ?ps ?w ''oslc.select'' = Some ''wonum''"
    by (simp add: sampleParams_def)
  have d: \<open>paramsAfter ?c ''mxapiwo'' ?ps ?w ''oslc.where''
       = Some ''(assetnum="A100" or assetnum="A101")''\<close>
    by code_simp
  show ?thesis
    by (intro conjI a n b d)
qed

section \<open>Site scoping\<close>

text \<open>
  C7: for a detected predicate with a usable configuration entry, when the caller
  supplies a default site (a non-empty string), the entry defines a related site field
  and the guard does not find a site reference in the predicate's own clause, the
  iteration of the planner hands the transport a request whose filter is exactly the site
  field, \<^verbatim>\<open>="\<close>, the escaped default site, \<^verbatim>\<open>" and \<close>, and the predicate's
  clause \<^verbatim>\<open><field> <op> "<escaped literal>"\<close> (the world behind the iteration is the
  one the transport returns for that request), and the \<^verbatim>\<open>prefetch\<close> step it appends
  to the plan records the same filter.
\<close>

theorem site_scoping_prefix:
  assumes "p \<in> set (detectRelationshipPredicates wh)"
    and "usableCfg r (rel p) = Some relCfg"
    and "defaultSite c = Some site" and "site \<noteq> []"
    and "trim (relatedSiteField relCfg) \<noteq> []"
    and "\<not> mentionsSiteid (predicateClause p)"
  shows "world (processPredicate c a r p st) =
      snd (maximoFetch c (world st) (bag st)
        \<lparr>req_apiBase = a, req_relatedOs = trim (relatedOs relCfg),
         req_pageSize = (if pageSize relCfg = 0 then 200 else pageSize relCfg),
         req_select = (if trim (select relCfg) = [] then trim (relatedKeyField relCfg)
                       else trim (select relCfg)),
         req_where =
           trim (relatedSiteField relCfg) @ ''='' @ [dquote] @ escapeWhereString site @ [dquote]
             @ '' and '' @ field p @ '' '' @ op p @ '' '' @ [dquote]
             @ escapeWhereString (value p) @ [dquote]\<rparr>)
    \<and> (\<exists>more. steps (lplan (processPredicate c a r p st)) =
          steps (lplan st) @
          Prefetch (rel p) (trim (relatedOs relCfg))
            (trim (relatedSiteField relCfg) @ ''='' @ [dquote] @ escapeWhereString site @ [dquote]
               @ '' and '' @ field p @ '' '' @ op p @ '' '' @ [dquote]
               @ escapeWhereString (value p) @ [dquote])
            (if trim (select relCfg) = [] then trim (relatedKeyField relCfg)
             else trim (select relCfg))
            (trim (rootJoinField relCfg)) (trim (relatedKeyField relCfg))
            (effectiveMaxKeys relCfg (envMaxPrefetchKeys c)) # more)"
proof -
  let ?X = "trim (relatedSiteField relCfg) @ ''='' @ [dquote] @ escapeWhereString site @ [dquote]
             @ '' and '' @ field p @ '' '' @ op p @ '' '' @ [dquote]
             @ escapeWhereString (value p) @ [dquote]"
  have "op p = ''='' \<or> op p = ''!='' \<or> op p = ''like''"
    using assms(1) detect_from_op by (simp add: detectRelationshipPredicates_def)
  then have "predicateClause p =
      field p @ '' '' @ op p @ '' '' @ [dquote] @ escapeWhereString (value p) @ [dquote]"
    by (auto simp: predicateClause_def)
  then have bw: "buildRelWhere p (defaultSite c) (trim (relatedSiteField relCfg)) = ?X"
    using assms(3-6) by (simp add: buildRelWhere_def Let_def)
  have rq: "predicateRequest c a relCfg p =
      \<lparr>req_apiBase = a, req_relatedOs = trim (relatedOs relCfg),
       req_pageSize = (if pageSize relCfg = 0 then 200 else pageSize relCfg),
       req_select = (if trim (select relCfg) = [] then trim (relatedKeyField relCfg)
                     else trim (select relCfg)),
       req_where = ?X\<rparr>"
    by (simp add: predicateRequest_def prefetchRequest_def cfgSelect_def bw)
  have ps: "prefetchStep c relCfg p =
      Prefetch (rel p) (trim (relatedOs relCfg)) ?X
        (if trim (select relCfg) = [] then trim (relatedKeyField relCfg)
         else trim (select relCfg))
        (trim (rootJoinField relCfg)) (trim (relatedKeyField relCfg))
        (effectiveMaxKeys relCfg (envMaxPrefetchKeys c))"
    by (simp add: prefetchStep_def cfgSelect_def bw)
  obtain res w' where f: "maximoFetch c (world st) (bag st) (predicateRequest c a relCfg p) = (res, w')"
    by (cases "maximoFetch c (world st) (bag st) (predicateRequest c a relCfg p)")
  show ?thesis
  proof (cases res)
    case (Inl msg)
    with f have f': "maximoFetch c (world st) (bag st) (predicateRequest c a relCfg p) = (Inl msg, w')"
      by simp
    show ?thesis
      using f' [unfolded rq] by (simp add: processPredicate_throw [OF assms(2) f'] ps)
  next
    case (Inr r2)
    with f have f': "maximoFetch c (world st) (bag st) (predicateRequest c a relCfg p) = (Inr r2, w')"
      by simp
    show ?thesis
      using f' [unfolded rq] by (simp add: processPredicate_keys [OF assms(2) f'] ps)
  qed
qed


theorem site_scoping_prefix_witness:
  \<open>sensorPredicate \<in> set (detectRelationshipPredicates sensorWhere)
   \<and> usableCfg (builtIn ''mxapiwo'') (rel sensorPredicate) = Some assetCfg
   \<and> defaultSite (recordingCollab (Some ''BEDFORD'')) = Some ''BEDFORD''
   \<and> ''BEDFORD'' \<noteq> []
   \<and> trim (relatedSiteField assetCfg) \<noteq> []
   \<and> \<not> mentionsSiteid (predicateClause sensorPredicate)
   \<and> world (processPredicate (recordingCollab (Some ''BEDFORD'')) ''https://host/maximo/api''
        (builtIn ''mxapiwo'') sensorPredicate (loopStart (sampleParams sensorWhere) []))
       = [\<lparr>req_apiBase = ''https://host/maximo/api'', req_relatedOs = ''mxapiasset'',
           req_pageSize = 200, req_select = ''assetnum'',
           req_where = ''siteid="BEDFORD" and assettype = "SENSOR"''\<rparr>]
   \<and> snd (snd (applyRelationshipPrefetch (recordingCollab (Some ''BEDFORD'')) ''mxapiwo''
        (sampleParams sensorWhere) []))
       = [\<lparr>req_apiBase = ''https://host/maximo/api'', req_relatedOs = ''mxapiasset'',
           req_pageSize = 200, req_select = ''assetnum'',
           req_where = ''siteid="BEDFORD" and assettype = "SENSOR"''\<rparr>]
   \<and> hd (steps (planOf (recordingCollab (Some ''BEDFORD'')) ''mxapiwo''
        (sampleParams sensorWhere) []))
       = Prefetch ''asset'' ''mxapiasset'' ''siteid="BEDFORD" and assettype = "SENSOR"''
           ''assetnum'' ''assetnum'' ''assetnum'' 50\<close>
proof -
  let ?c = "recordingCollab (Some ''BEDFORD'')"
  let ?st = "loopStart (sampleParams sensorWhere) ([] :: request list)"
  have h1: "sensorPredicate \<in> set (detectRelationshipPredicates sensorWhere)"
    by code_simp
  have h2: "usableCfg (builtIn ''mxapiwo'') (rel sensorPredicate) = Some assetCfg"
    by code_simp
  have h3: "defaultSite ?c = Some ''BEDFORD''"
    by (simp add: recordingCollab_def)
  have h4: "''BEDFORD'' \<noteq> []"
    by simp
  have h5: "trim (relatedSiteField assetCfg) \<noteq> []"
    by code_simp
  have h6: "\<not> mentionsSiteid (predicateClause sensorPredicate)"
    by code_simp
  have e: \<open>snd (maximoFetch ?c (world ?st) (bag ?st)
        \<lparr>req_apiBase = ''https://host/maximo/api'', req_relatedOs = trim (relatedOs assetCfg),
         req_pageSize = (if pageSize assetCfg = 0 then 200 else pageSize assetCfg),
         req_select = (if trim (select assetCfg) = [] then trim (relatedKeyField assetCfg)
                       else trim (select assetCfg)),
         req_where =
           trim (relatedSiteField assetCfg) @ ''='' @ [dquote] @ escapeWhereString ''BEDFORD''
             @ [dquote] @ '' and '' @ field sensorPredicate @ '' '' @ op sensorPredicate @ '' ''
             @ [dquote] @ escapeWhereString (value sensorPredicate) @ [dquote]\<rparr>)
      = [\<lparr>req_apiBase = ''https://host/maximo/api'', req_relatedOs = ''mxapiasset'',
           req_pageSize = 200, req_select = ''assetnum'',
           req_where = ''siteid="BEDFORD" and assettype = "SENSOR"''\<rparr>]\<close>
    by code_simp
  note t = site_scoping_prefix [OF h1 h2 h3 h4 h5 h6, of "''https://host/maximo/api''" ?st]
  have r1: \<open>world (processPredicate ?c ''https://host/maximo/api'' (builtIn ''mxapiwo'')
        sensorPredicate ?st)
      = [\<lparr>req_apiBase = ''https://host/maximo/api'', req_relatedOs = ''mxapiasset'',
           req_pageSize = 200, req_select = ''assetnum'',
           req_where = ''siteid="BEDFORD" and assettype = "SENSOR"''\<rparr>]\<close>
    by (rule trans [OF t [THEN conjunct1] e])
  have r2: \<open>snd (snd (applyRelationshipPrefetch ?c ''mxapiwo'' (sampleParams sensorWhere) []))
      = [\<lparr>req_apiBase = ''https://host/maximo/api'', req_relatedOs = ''mxapiasset'',
           req_pageSize = 200, req_select = ''assetnum'',
           req_where = ''siteid="BEDFORD" and assettype = "SENSOR"''\<rparr>]\<close>
    by code_simp
  have r3: \<open>hd (steps (planOf ?c ''mxapiwo'' (sampleParams sensorWhere) []))
      = Prefetch ''asset'' ''mxapiasset'' ''siteid="BEDFORD" and assettype = "SENSOR"''
           ''assetnum'' ''assetnum'' ''assetnum'' 50\<close>
    by code_simp
  show ?thesis
    by (intro conjI h1 h2 h3 h4 h5 h6 r1 r2 r3)
qed

section \<open>Escaping\<close>

text \<open>
  C8: a literal built from a value with double quotes stays a well-formed literal. The
  code does not keep to this: \<^verbatim>\<open>escapeWhereString\<close> puts a backslash before every
  double quote and leaves backslashes alone. For a value that holds a double quote and
  ends in a backslash, which the detector takes from a single-quoted literal and which a
  response member can hold as a key, the escaped text ends in a backslash, the closing
  quote behind it reads as an escaped quote, and the literal is never closed, in the
  related-resource filter and in the equality clause of the disjunction alike.
\<close>

theorem trailing_backslash_literal_open:
  \<open>detectRelationshipPredicates (''asset.description='' @ [squote] @ inchValue @ [squote])
     = [\<lparr>rel = ''asset'', field = ''description'', op = ''='', value = inchValue\<rparr>]
   \<and> predicateClause \<lparr>rel = ''asset'', field = ''description'', op = ''='', value = inchValue\<rparr>
     = ''description = "6'' @ [backslash, dquote, backslash, dquote]
   \<and> eqClause ''assetnum'' inchValue = ''assetnum="6'' @ [backslash, dquote, backslash, dquote]
   \<and> scanLiteral (escapeWhereString inchValue @ [dquote]) = None\<close>
  by code_simp

section \<open>Running the detector on the rewritten filter\<close>

text \<open>
  C9: the detector finds no predicate of a resolved relation in the rewritten filter. The
  code does not keep to this, by the defect shown for C5. In the filter with
  \<^verbatim>\<open>Asset\<close> and \<^verbatim>\<open>asset\<close>, the one predicate of the relation \<^verbatim>\<open>asset\<close> is
  resolved (prefetch, result and rewrite are recorded, no error), yet the disjunction
  lands on the other clause, and the detector finds the \<^verbatim>\<open>asset\<close> predicate in the
  output again.
\<close>

theorem resolved_relation_detected_again:
  \<open>map kind (steps (planOf (sampleCollab None None) ''mxapiwo''
        (sampleParams caseVariantWhere) [Inr (membersOf ''assetnum'' [''A100''])]))
     = [''prefetch'', ''prefetch_result'', ''rewrite'']
   \<and> errors (planOf (sampleCollab None None) ''mxapiwo''
        (sampleParams caseVariantWhere) [Inr (membersOf ''assetnum'' [''A100''])]) = []
   \<and> map_option detectRelationshipPredicates
        (paramsAfter (sampleCollab None None) ''mxapiwo'' (sampleParams caseVariantWhere)
           [Inr (membersOf ''assetnum'' [''A100''])] ''oslc.where'')
     = Some [\<lparr>rel = ''asset'', field = ''assettype'', op = ''='', value = ''SENSOR''\<rparr>]\<close>
  by code_simp

section \<open>Keys extracted from a response\<close>

text \<open>
  C10: every extracted key is a non-empty trimmed string, so no equality clause compares
  with the empty string. The code does not keep to this: \<^verbatim>\<open>filter(Boolean)\<close> runs
  before \<^verbatim>\<open>trim()\<close>, so a member whose key field holds only white space passes the
  filter and is trimmed to the empty key, which reaches the disjunction.
\<close>

theorem blank_key_kept:
  \<open>extractKeys ''assetnum'' (getOslcMembers (membersOf ''assetnum'' [''A100'', ''  '']))
     = [''A100'', '''']
   \<and> paramsAfter (sampleCollab None None) ''mxapiwo'' (sampleParams sensorWhere)
        [Inr (membersOf ''assetnum'' [''A100'', ''  ''])] ''oslc.where''
     = Some ''(assetnum="A100" or assetnum="")''\<close>
  by code_simp

end
